theory Spec2Isabelle
  imports Main "HOL-Library.Log_Nat"
begin

section \<open>JavaScript numbers\<close>

text \<open>
  The calculator (\<^verbatim>\<open>src/App.jsx\<close>, and its earlier revision kept as
  \<^verbatim>\<open>unnamed/part_000\<close>) computes with JavaScript numbers: IEEE 754 binary64
  values. A number is \<open>NaN\<close>, one of the two infinities, or a finite value, which is
  always a rational. The two zeros are identified: every comparison of the program
  treats them alike, and no division in \<open>calculateMetrics\<close> has a zero divisor.
\<close>

datatype jsnum = NaN | PInf | NInf | Fin rat

text \<open>
  Arithmetic is read in one of two ways. \<open>Binary64\<close> is what a JavaScript engine
  does: every result is rounded to the nearest double, ties to even, with overflow to
  an infinity and gradual underflow to zero. \<open>Exact\<close> keeps the rational result
  unrounded. The program never runs it: it is the idealisation with which the rounded
  results are compared. What is proved for every arithmetic holds of the program at
  \<open>Binary64\<close>.
\<close>

datatype arith = Binary64 | Exact

definition pow2 :: "int \<Rightarrow> rat" where
  "pow2 e = (if 0 \<le> e then 2 ^ nat e else 1 / 2 ^ nat (- e))"

text \<open>The binary exponent of a positive rational \<open>x\<close>: the \<open>e\<close> with \<open>2^e \<le> x < 2^(e+1)\<close>.\<close>

definition ilog2 :: "rat \<Rightarrow> int" where
  "ilog2 x = (if 1 \<le> x then bitlen \<lfloor>x\<rfloor> - 1 else - bitlen (\<lceil>1 / x\<rceil> - 1))"

definition round_half_even :: "rat \<Rightarrow> int" where
  "round_half_even x =
     (let n = \<lfloor>x\<rfloor>; d = x - of_int n
      in if d < 1 / 2 then n
         else if 1 / 2 < d then n + 1
         else if even n then n else n + 1)"

text \<open>
  Rounding a rational to binary64: 53 significant bits, the exponent of the unit in the
  last place not below \<open>-1074\<close> (subnormals), and every magnitude that rounds to
  \<open>2^1024\<close> or more becomes an infinity.
\<close>

definition binary64 :: "rat \<Rightarrow> jsnum" where
  "binary64 x =
     (if x = 0 then Fin 0
      else let a = \<bar>x\<bar>;
               e = max (ilog2 a) (- 1022);
               u = pow2 (e - 52);
               m = of_int (round_half_even (a / u)) * u
           in if pow2 1024 \<le> m then (if 0 < x then PInf else NInf)
              else Fin (if 0 < x then m else - m))"

fun rnd :: "arith \<Rightarrow> rat \<Rightarrow> jsnum" where
  "rnd Binary64 x = binary64 x"
| "rnd Exact x = Fin x"

text \<open>Multiplication and division with the special cases of IEEE 754.\<close>

fun js_mul :: "arith \<Rightarrow> jsnum \<Rightarrow> jsnum \<Rightarrow> jsnum" where
  "js_mul a NaN _ = NaN"
| "js_mul a _ NaN = NaN"
| "js_mul a (Fin x) (Fin y) = rnd a (x * y)"
| "js_mul a (Fin x) PInf = (if x = 0 then NaN else if 0 < x then PInf else NInf)"
| "js_mul a (Fin x) NInf = (if x = 0 then NaN else if 0 < x then NInf else PInf)"
| "js_mul a PInf (Fin y) = (if y = 0 then NaN else if 0 < y then PInf else NInf)"
| "js_mul a NInf (Fin y) = (if y = 0 then NaN else if 0 < y then NInf else PInf)"
| "js_mul a PInf PInf = PInf"
| "js_mul a PInf NInf = NInf"
| "js_mul a NInf PInf = NInf"
| "js_mul a NInf NInf = PInf"

fun js_div :: "arith \<Rightarrow> jsnum \<Rightarrow> jsnum \<Rightarrow> jsnum" where
  "js_div a NaN _ = NaN"
| "js_div a _ NaN = NaN"
| "js_div a (Fin x) (Fin y) =
     (if y = 0 then (if x = 0 then NaN else if 0 < x then PInf else NInf)
      else rnd a (x / y))"
| "js_div a (Fin x) PInf = Fin 0"
| "js_div a (Fin x) NInf = Fin 0"
| "js_div a PInf (Fin y) = (if 0 \<le> y then PInf else NInf)"
| "js_div a NInf (Fin y) = (if 0 \<le> y then NInf else PInf)"
| "js_div a PInf PInf = NaN"
| "js_div a PInf NInf = NaN"
| "js_div a NInf PInf = NaN"
| "js_div a NInf NInf = NaN"

text \<open>The relational operators: every comparison with \<open>NaN\<close> is false.\<close>

fun js_lt :: "jsnum \<Rightarrow> jsnum \<Rightarrow> bool" where
  "js_lt NaN _ = False"
| "js_lt _ NaN = False"
| "js_lt (Fin x) (Fin y) = (x < y)"
| "js_lt (Fin x) PInf = True"
| "js_lt (Fin x) NInf = False"
| "js_lt PInf _ = False"
| "js_lt NInf NInf = False"
| "js_lt NInf _ = True"

definition js_gt :: "jsnum \<Rightarrow> jsnum \<Rightarrow> bool" where
  "js_gt x y = js_lt y x"

definition js_le :: "jsnum \<Rightarrow> jsnum \<Rightarrow> bool" where
  "js_le x y = (x \<noteq> NaN \<and> y \<noteq> NaN \<and> \<not> js_lt y x)"

definition isNaN :: "jsnum \<Rightarrow> bool" where
  "isNaN x = (x = NaN)"

section \<open>\<open>parseFloat\<close>\<close>

text \<open>
  The built-in \<^verbatim>\<open>parseFloat\<close> (ECMA-262, 19.2.4): leading white space is dropped, then
  the longest prefix that is a \<open>StrDecimalLiteral\<close> is read and its mathematical value
  rounded; without such a prefix the result is \<open>NaN\<close>. A string is a list of 8-bit
  code units, so of the white-space code points those up to \<open>0xA0\<close> are covered.
\<close>

definition isWhiteSpace :: "char \<Rightarrow> bool" where
  "isWhiteSpace c = ((of_char c :: nat) \<in> {9, 10, 11, 12, 13, 32, 160})"

definition isDigit :: "char \<Rightarrow> bool" where
  "isDigit c = (48 \<le> (of_char c :: nat) \<and> (of_char c :: nat) \<le> 57)"

definition digitVal :: "char \<Rightarrow> nat" where
  "digitVal c = of_char c - 48"

definition digitsVal :: "string \<Rightarrow> nat" where
  "digitsVal ds = foldl (\<lambda>n c. 10 * n + digitVal c) 0 ds"

definition pow10 :: "int \<Rightarrow> rat" where
  "pow10 e = (if 0 \<le> e then 10 ^ nat e else 1 / 10 ^ nat (- e))"

text \<open>\<open>SignedInteger\<close> after the exponent indicator; no digits means no exponent part.\<close>

definition signedDigits :: "int \<Rightarrow> string \<Rightarrow> int" where
  "signedDigits sg s =
     (let ds = takeWhile isDigit s in if ds = [] then 0 else sg * int (digitsVal ds))"

definition exponentPart :: "string \<Rightarrow> int" where
  "exponentPart s =
     (case s of
        [] \<Rightarrow> 0
      | c # r \<Rightarrow>
          if c = CHR ''e'' \<or> c = CHR ''E'' then
            (case r of
               [] \<Rightarrow> 0
             | d # r' \<Rightarrow>
                 if d = CHR ''+'' then signedDigits 1 r'
                 else if d = CHR ''-'' then signedDigits (- 1) r'
                 else signedDigits 1 r)
          else 0)"

datatype strnum = Infinity | Decimal rat

definition StrUnsignedDecimalLiteral :: "string \<Rightarrow> strnum option" where
  "StrUnsignedDecimalLiteral s =
     (if take 8 s = ''Infinity'' then Some Infinity
      else
        let ip = takeWhile isDigit s; r = dropWhile isDigit s
        in case r of
             [] \<Rightarrow> if ip = [] then None else Some (Decimal (of_nat (digitsVal ip)))
           | c # r' \<Rightarrow>
               if c = CHR ''.'' then
                 (let fp = takeWhile isDigit r'; r'' = dropWhile isDigit r'
                  in if ip = [] \<and> fp = [] then None
                     else Some (Decimal
                       ((of_nat (digitsVal ip) + of_nat (digitsVal fp) / 10 ^ length fp)
                          * pow10 (exponentPart r''))))
               else if ip = [] then None
               else Some (Decimal (of_nat (digitsVal ip) * pow10 (exponentPart r))))"

definition parseFloat :: "arith \<Rightarrow> string \<Rightarrow> jsnum" where
  "parseFloat a inputString =
     (let trimmed = dropWhile isWhiteSpace inputString;
          neg = (take 1 trimmed = ''-'');
          body = (if take 1 trimmed = ''-'' \<or> take 1 trimmed = ''+'' then drop 1 trimmed
                  else trimmed)
      in case StrUnsignedDecimalLiteral body of
           None \<Rightarrow> NaN
         | Some Infinity \<Rightarrow> (if neg then NInf else PInf)
         | Some (Decimal v) \<Rightarrow> rnd a (if neg then - v else v))"

section \<open>The calculator\<close>

text \<open>
  The component state of \<^verbatim>\<open>App\<close>: the four input strings and the four metrics, a
  metric being \<^verbatim>\<open>null\<close> (\<open>None\<close>) or a number.
\<close>

record state =
  investmentCost :: string
  annualNetSales :: string
  ebitdaPercentage :: string
  annualRentCam :: string
  salesToInvestmentRatio :: "jsnum option"
  paybackPeriod :: "jsnum option"
  roi :: "jsnum option"
  rentFactor :: "jsnum option"

text \<open>
  \<^verbatim>\<open>calculateMetrics\<close> reads the inputs and sets the four metrics; it is the same
  function in \<^verbatim>\<open>src/App.jsx\<close> and in \<^verbatim>\<open>unnamed/part_000\<close>.
\<close>

definition calculateMetrics :: "arith \<Rightarrow> state \<Rightarrow> state" where
  "calculateMetrics a st =
     (let tic = parseFloat a (investmentCost st);
          pans = parseFloat a (annualNetSales st);
          ebitdaPct = js_div a (parseFloat a (ebitdaPercentage st)) (Fin 100);
          arc = parseFloat a (annualRentCam st)
      in if isNaN tic \<or> isNaN pans \<or> isNaN ebitdaPct \<or> isNaN arc then
           st\<lparr>salesToInvestmentRatio := None, paybackPeriod := None,
              roi := None, rentFactor := None\<rparr>
         else
           let pae = js_mul a pans ebitdaPct
           in st\<lparr>salesToInvestmentRatio :=
                   (if js_gt tic (Fin 0) then Some (js_div a pans tic) else None),
                 paybackPeriod :=
                   (if js_gt pae (Fin 0) then Some (js_div a tic pae) else None),
                 roi :=
                   (if js_gt tic (Fin 0) then Some (js_mul a (js_div a pae tic) (Fin 100))
                    else None),
                 rentFactor :=
                   (if js_gt pans (Fin 0) then Some (js_mul a (js_div a arc pans) (Fin 100))
                    else None)\<rparr>)"

text \<open>The state before the first effect runs: empty inputs, every metric \<^verbatim>\<open>null\<close>.\<close>

definition inputs :: "string \<Rightarrow> string \<Rightarrow> string \<Rightarrow> string \<Rightarrow> state" where
  "inputs ic ans ep arc =
     \<lparr>investmentCost = ic, annualNetSales = ans, ebitdaPercentage = ep,
      annualRentCam = arc, salesToInvestmentRatio = None, paybackPeriod = None,
      roi = None, rentFactor = None\<rparr>"

text \<open>
  A decimal of digits and one point only, as the input boxes admit: \<open>10\<^sup>-\<^sup>1\<^sup>6\<^sup>5\<close>, a
  ``0.'' followed by 164 zeros and a one.
\<close>

definition tiny_decimal :: string where
  "tiny_decimal =
     ''0.'' @ ''0000000000000000000000000000000000000000000000000000000000000000000000000000000000''
       @ ''0000000000000000000000000000000000000000000000000000000000000000000000000000000000'' @ ''1''"

section \<open>The benchmark classifier\<close>

text \<open>
  A benchmark is a number, or the object \<^verbatim>\<open>{ ideal, max }\<close> of the payback period.
  Read the wrong way round, either gives a comparison that is false: an object
  compared as a number is \<open>NaN\<close>, and a missing property is \<^verbatim>\<open>undefined\<close>, which a
  comparison converts to \<open>NaN\<close>.
\<close>

datatype benchmark = Threshold jsnum | Band jsnum jsnum

fun number_of :: "benchmark \<Rightarrow> jsnum" where
  "number_of (Threshold x) = x"
| "number_of (Band i m) = NaN"

fun ideal_of :: "benchmark \<Rightarrow> jsnum" where
  "ideal_of (Band i m) = i"
| "ideal_of (Threshold x) = NaN"

fun max_of :: "benchmark \<Rightarrow> jsnum" where
  "max_of (Band i m) = m"
| "max_of (Threshold x) = NaN"


record status =
  label :: string
  color :: string

text \<open>
  The field \<open>label\<close> is the property \<^verbatim>\<open>text\<close> of the returned object. The colours
  stand for the severities: green is good, yellow a warning, red bad, grey unknown.
\<close>

text \<open>\<^verbatim>\<open>getBenchmarkStatus\<close> of \<^verbatim>\<open>src/App.jsx\<close>: three metric kinds and a default.\<close>

definition getBenchmarkStatus :: "jsnum option \<Rightarrow> benchmark \<Rightarrow> string \<Rightarrow> status" where
  "getBenchmarkStatus v benchmark ty =
     (case v of
        None \<Rightarrow> \<lparr>label = ''N/A'', color = ''text-gray-500''\<rparr>
      | Some x \<Rightarrow>
          if ty = ''salesToInvestmentRatio'' then
            (if js_gt x (number_of benchmark)
             then \<lparr>label = ''Meets Target'', color = ''text-green-600''\<rparr>
             else \<lparr>label = ''Below Target'', color = ''text-red-600''\<rparr>)
          else if ty = ''paybackPeriod'' then
            (if js_le x (ideal_of benchmark)
             then \<lparr>label = ''Excellent'', color = ''text-green-600''\<rparr>
             else if js_lt x (max_of benchmark)
             then \<lparr>label = ''Good'', color = ''text-yellow-600''\<rparr>
             else \<lparr>label = ''High Risk'', color = ''text-red-600''\<rparr>)
          else if ty = ''rentFactor'' then
            (if js_lt x (number_of benchmark)
             then \<lparr>label = ''Meets Target'', color = ''text-green-600''\<rparr>
             else \<lparr>label = ''High'', color = ''text-red-600''\<rparr>)
          else \<lparr>label = [], color = []\<rparr>)"

text \<open>
  \<^verbatim>\<open>getBenchmarkStatus\<close> of \<^verbatim>\<open>unnamed/part_000\<close>: the same, with a case for
  \<^verbatim>\<open>'roi'\<close> between the payback period and the rent factor.
\<close>

definition getBenchmarkStatus_part_000 ::
    "jsnum option \<Rightarrow> benchmark \<Rightarrow> string \<Rightarrow> status" where
  "getBenchmarkStatus_part_000 v benchmark ty =
     (case v of
        None \<Rightarrow> \<lparr>label = ''N/A'', color = ''text-gray-500''\<rparr>
      | Some x \<Rightarrow>
          if ty = ''salesToInvestmentRatio'' then
            (if js_gt x (number_of benchmark)
             then \<lparr>label = ''Meets Target'', color = ''text-green-600''\<rparr>
             else \<lparr>label = ''Below Target'', color = ''text-red-600''\<rparr>)
          else if ty = ''paybackPeriod'' then
            (if js_le x (ideal_of benchmark)
             then \<lparr>label = ''Excellent'', color = ''text-green-600''\<rparr>
             else if js_lt x (max_of benchmark)
             then \<lparr>label = ''Good'', color = ''text-yellow-600''\<rparr>
             else \<lparr>label = ''High Risk'', color = ''text-red-600''\<rparr>)
          else if ty = ''roi'' then
            (if js_gt x (number_of benchmark)
             then \<lparr>label = ''Meets Target'', color = ''text-green-600''\<rparr>
             else \<lparr>label = ''Below Target'', color = ''text-red-600''\<rparr>)
          else if ty = ''rentFactor'' then
            (if js_lt x (number_of benchmark)
             then \<lparr>label = ''Meets Target'', color = ''text-green-600''\<rparr>
             else \<lparr>label = ''High'', color = ''text-red-600''\<rparr>)
          else \<lparr>label = [], color = []\<rparr>)"

section \<open>Properties of the number model\<close>

subsection \<open>Powers of two and the binary exponent\<close>

lemma pow2_powi: "pow2 e = 2 powi e"
  by (simp add: pow2_def power_int_def inverse_eq_divide power_one_over)

lemma pow2_pos: "0 < pow2 e"
  by (simp add: pow2_powi)

lemma pow2_mono: "e \<le> e' \<Longrightarrow> pow2 e \<le> pow2 e'"
  by (simp add: pow2_powi power_int_increasing)

lemma pow2_less_imp: "pow2 e < pow2 e' \<Longrightarrow> e < e'"
  using pow2_mono [of e' e] by (cases "e < e'") auto

lemma pow2_of_nat: "0 \<le> k \<Longrightarrow> pow2 k = 2 ^ nat k"
  by (simp add: pow2_def)

lemma pow2_neg: "0 \<le> k \<Longrightarrow> pow2 (- k) = 1 / 2 ^ nat k"
  by (cases "k = 0") (simp_all add: pow2_def)

lemma pow2_succ: "pow2 (e + 1) = 2 * pow2 e"
  by (simp add: pow2_powi power_int_add_1)

text \<open>\<open>ilog2\<close> is the binary exponent: \<open>2^(ilog2 x) \<le> x < 2^(ilog2 x + 1)\<close>.\<close>

lemma ilog2_lower:
  assumes "0 < x"
  shows "pow2 (ilog2 x) \<le> x"
proof (cases "1 \<le> x")
  case True
  then have n: "0 < \<lfloor>x\<rfloor>" by simp
  from bitlen_bounds [OF n] have b: "2 ^ nat (bitlen \<lfloor>x\<rfloor> - 1) \<le> \<lfloor>x\<rfloor>" by simp
  have k: "0 \<le> bitlen \<lfloor>x\<rfloor> - 1"
    using n by (simp add: bitlen_alt_def)
  have "(2::rat) ^ nat (bitlen \<lfloor>x\<rfloor> - 1) = of_int (2 ^ nat (bitlen \<lfloor>x\<rfloor> - 1))" by simp
  also have "\<dots> \<le> of_int \<lfloor>x\<rfloor>" using b by (simp only: of_int_le_iff)
  also have "\<dots> \<le> x" by simp
  finally show ?thesis using True k by (simp add: ilog2_def pow2_of_nat)
next
  case False
  with assms have x: "0 < x" "x < 1" by simp_all
  then have "1 < 1 / x" by simp
  then have c: "2 \<le> \<lceil>1 / x\<rceil>" by linarith
  define n where "n = \<lceil>1 / x\<rceil> - 1"
  have n: "0 < n" using c by (simp add: n_def)
  from bitlen_bounds [OF n] have "n < 2 ^ nat (bitlen n)" by simp
  then have "\<lceil>1 / x\<rceil> \<le> 2 ^ nat (bitlen n)" by (simp add: n_def)
  then have "1 / x \<le> 2 ^ nat (bitlen n)"
    using ceiling_le_iff [of "1 / x" "2 ^ nat (bitlen n)"] by simp
  then have "1 / 2 ^ nat (bitlen n) \<le> x" using x
    by (simp add: field_simps)
  moreover have "0 \<le> bitlen n" by (rule bitlen_nonneg)
  ultimately show ?thesis using False
    by (simp add: ilog2_def pow2_neg n_def)
qed

lemma ilog2_upper:
  assumes "0 < x"
  shows "x < pow2 (ilog2 x + 1)"
proof (cases "1 \<le> x")
  case True
  then have n: "0 < \<lfloor>x\<rfloor>" by simp
  from bitlen_bounds [OF n] have b: "\<lfloor>x\<rfloor> < 2 ^ nat (bitlen \<lfloor>x\<rfloor>)" by simp
  have k: "0 \<le> bitlen \<lfloor>x\<rfloor>" by (rule bitlen_nonneg)
  from b have "\<lfloor>x\<rfloor> + 1 \<le> 2 ^ nat (bitlen \<lfloor>x\<rfloor>)" by simp
  then have "of_int (\<lfloor>x\<rfloor> + 1) \<le> (of_int (2 ^ nat (bitlen \<lfloor>x\<rfloor>)) :: rat)"
    by (simp only: of_int_le_iff)
  moreover have "x < of_int (\<lfloor>x\<rfloor> + 1)" by linarith
  ultimately have "x < 2 ^ nat (bitlen \<lfloor>x\<rfloor>)" by simp
  then show ?thesis using True k by (simp add: ilog2_def pow2_of_nat)
next
  case False
  with assms have x: "0 < x" "x < 1" by simp_all
  then have "1 < 1 / x" by simp
  then have c: "2 \<le> \<lceil>1 / x\<rceil>" by linarith
  define n where "n = \<lceil>1 / x\<rceil> - 1"
  have n: "0 < n" using c by (simp add: n_def)
  have k: "1 \<le> bitlen n" using n by (simp add: bitlen_alt_def)
  from bitlen_bounds [OF n] have "2 ^ nat (bitlen n - 1) \<le> n" by simp
  then have "2 ^ nat (bitlen n - 1) < \<lceil>1 / x\<rceil>" by (simp add: n_def)
  then have "2 ^ nat (bitlen n - 1) < 1 / x"
    using less_ceiling_iff [of "2 ^ nat (bitlen n - 1)" "1 / x"] by simp
  then have "x < 1 / 2 ^ nat (bitlen n - 1)" using x by (simp add: field_simps)
  moreover have "pow2 (- bitlen n + 1) = 1 / 2 ^ nat (bitlen n - 1)"
    using pow2_neg [of "bitlen n - 1"] k by simp
  ultimately show ?thesis using False by (simp add: ilog2_def n_def)
qed

subsection \<open>Rounding\<close>

lemma round_half_even_cases:
  "round_half_even x = \<lfloor>x\<rfloor> \<and> x - of_int \<lfloor>x\<rfloor> \<le> 1 / 2
   \<or> round_half_even x = \<lfloor>x\<rfloor> + 1 \<and> 1 / 2 \<le> x - of_int \<lfloor>x\<rfloor>"
  by (simp add: round_half_even_def Let_def)

lemma round_half_even_nonneg: 
  assumes "0 \<le> x" shows "0 \<le> round_half_even x"
proof -
  have "0 \<le> \<lfloor>x\<rfloor>" using assms by simp
  then show ?thesis using round_half_even_cases [of x] by auto
qed

lemma round_half_even_le:
  assumes "0 \<le> x" shows "of_int (round_half_even x) \<le> 2 * x"
proof -
  define n where "n = \<lfloor>x\<rfloor>"
  have "0 \<le> n" using assms by (simp add: n_def)
  then have g: "(0::rat) \<le> of_int n" by simp
  have f: "of_int n \<le> x" by (simp add: n_def)
  from round_half_even_cases [of x]
  have "round_half_even x = n \<or> round_half_even x = n + 1 \<and> 1 / 2 \<le> x - of_int n"
    by (auto simp add: n_def)
  then show ?thesis
  proof
    assume "round_half_even x = n"
    then show ?thesis using f assms by linarith
  next
    assume "round_half_even x = n + 1 \<and> 1 / 2 \<le> x - of_int n"
    then have "of_int (round_half_even x) = of_int n + (1::rat)" "1 / 2 \<le> x - of_int n"
      by simp_all
    then show ?thesis using g by linarith
  qed
qed

lemma round_half_even_zero:
  assumes "0 \<le> x" "x < 1 / 2" shows "round_half_even x = 0"
proof -
  have "\<lfloor>x\<rfloor> = 0" using assms by (simp add: floor_eq_iff)
  then show ?thesis using assms by (simp add: round_half_even_def Let_def)
qed

lemma round_half_even_pos:
  assumes "1 \<le> x" shows "0 < round_half_even x"
proof -
  have "0 < \<lfloor>x\<rfloor>" using assms by simp
  then show ?thesis using round_half_even_cases [of x] by auto
qed

lemma binary64_not_NaN: "binary64 x \<noteq> NaN"
  by (simp add: binary64_def Let_def)

lemma rnd_not_NaN: "rnd a x \<noteq> NaN"
  by (cases a) (simp_all add: binary64_not_NaN)

lemma binary64_zero: "binary64 0 = Fin 0"
  by (simp add: binary64_def)

lemma rnd_zero: "rnd a 0 = Fin 0"
  by (cases a) (simp_all add: binary64_zero)

text \<open>
  Rounding keeps the sign and at most doubles the magnitude; magnitudes below half the
  least subnormal underflow to zero; the normal range stays finite and non-zero.
\<close>

lemma binary64_pos:
  assumes "0 < x"
  shows "binary64 x = PInf \<or> (\<exists>v. binary64 x = Fin v \<and> 0 \<le> v \<and> v \<le> 2 * x)"
proof -
  define u where "u = pow2 (max (ilog2 \<bar>x\<bar>) (- 1022) - 52)"
  define m where "m = of_int (round_half_even (\<bar>x\<bar> / u)) * u"
  have u: "0 < u" by (simp add: u_def pow2_pos)
  then have q: "0 \<le> \<bar>x\<bar> / u" by simp
  have "0 \<le> round_half_even (\<bar>x\<bar> / u)" using q by (rule round_half_even_nonneg)
  then have m0: "0 \<le> m" using u by (simp add: m_def)
  have "of_int (round_half_even (\<bar>x\<bar> / u)) \<le> 2 * (\<bar>x\<bar> / u)"
    using q by (rule round_half_even_le)
  then have "m \<le> 2 * (\<bar>x\<bar> / u) * u" unfolding m_def using u
    by (intro mult_right_mono) simp_all
  then have m2: "m \<le> 2 * x" using u assms by simp
  have "binary64 x = (if pow2 1024 \<le> m then PInf else Fin m)"
    using assms by (simp add: binary64_def Let_def m_def u_def)
  then show ?thesis using m0 m2 by auto
qed

lemma binary64_neg:
  assumes "x < 0"
  shows "binary64 x = NInf \<or> (\<exists>v. binary64 x = Fin v \<and> v \<le> 0 \<and> 2 * x \<le> v)"
proof -
  define u where "u = pow2 (max (ilog2 \<bar>x\<bar>) (- 1022) - 52)"
  define m where "m = of_int (round_half_even (\<bar>x\<bar> / u)) * u"
  have u: "0 < u" by (simp add: u_def pow2_pos)
  then have q: "0 \<le> \<bar>x\<bar> / u" by simp
  have "0 \<le> round_half_even (\<bar>x\<bar> / u)" using q by (rule round_half_even_nonneg)
  then have m0: "0 \<le> m" using u by (simp add: m_def)
  have "of_int (round_half_even (\<bar>x\<bar> / u)) \<le> 2 * (\<bar>x\<bar> / u)"
    using q by (rule round_half_even_le)
  then have "m \<le> 2 * (\<bar>x\<bar> / u) * u" unfolding m_def using u
    by (intro mult_right_mono) simp_all
  then have m2: "m \<le> 2 * - x" using u assms by simp
  have "binary64 x = (if pow2 1024 \<le> m then NInf else Fin (- m))"
    using assms by (simp add: binary64_def Let_def m_def u_def)
  then show ?thesis using m0 m2 by auto
qed

lemma binary64_underflow:
  assumes "0 \<le> x" "x < pow2 (- 1075)"
  shows "binary64 x = Fin 0"
proof (cases "x = 0")
  case True
  then show ?thesis by (simp add: binary64_def)
next
  case False
  with assms have x: "0 < x" by simp
  have "pow2 (ilog2 x) < pow2 (- 1075)"
    using ilog2_lower [OF x] assms(2) by simp
  then have "ilog2 x < - 1075" by (rule pow2_less_imp)
  then have e: "max (ilog2 \<bar>x\<bar>) (- 1022) - 52 = - 1074" using x by simp
  have "pow2 (- 1075 + 1) = 2 * pow2 (- 1075)" by (rule pow2_succ)
  then have h: "pow2 (- 1074) = 2 * pow2 (- 1075)" by simp
  have "x / pow2 (- 1074) < 1 / 2"
    using assms(2) pow2_pos [of "- 1075"] unfolding h by (simp add: field_simps)
  moreover have "0 \<le> x / pow2 (- 1074)" using x pow2_pos [of "- 1074"] by simp
  ultimately have "round_half_even (x / pow2 (- 1074)) = 0"
    by (intro round_half_even_zero)
  then show ?thesis using x e pow2_pos [of 1024]
    by (simp add: binary64_def Let_def)
qed

lemma binary64_normal:
  assumes "pow2 (- 1022) \<le> x" "x < pow2 1023"
  shows "\<exists>v. binary64 x = Fin v \<and> 0 < v \<and> v \<le> 2 * x"
proof -
  have x: "0 < x" using assms(1) pow2_pos [of "- 1022"] by simp
  define e where "e = max (ilog2 \<bar>x\<bar>) (- 1022)"
  define u where "u = pow2 (e - 52)"
  define m where "m = of_int (round_half_even (\<bar>x\<bar> / u)) * u"
  have u: "0 < u" by (simp add: u_def pow2_pos)
  have "pow2 e \<le> x"
    using ilog2_lower [OF x] assms(1) x by (simp add: e_def max_def)
  moreover have "u \<le> pow2 e" unfolding u_def by (rule pow2_mono) simp
  ultimately have "u \<le> x" by simp
  then have "1 \<le> \<bar>x\<bar> / u" using u x by simp
  then have "0 < round_half_even (\<bar>x\<bar> / u)" by (rule round_half_even_pos)
  then have m0: "0 < m" using u by (simp add: m_def)
  have "of_int (round_half_even (\<bar>x\<bar> / u)) \<le> 2 * (\<bar>x\<bar> / u)"
    using u x by (intro round_half_even_le) simp
  then have "m \<le> 2 * (\<bar>x\<bar> / u) * u" unfolding m_def using u
    by (intro mult_right_mono) simp_all
  then have m2: "m \<le> 2 * x" using u x by simp
  have "pow2 (1023 + 1) = 2 * pow2 1023" by (rule pow2_succ)
  then have "m < pow2 1024" using m2 assms(2) by simp
  moreover have "binary64 x = (if pow2 1024 \<le> m then PInf else Fin m)"
    using x by (simp add: binary64_def Let_def m_def u_def e_def)
  ultimately show ?thesis using m0 m2 by auto
qed

subsection \<open>Signs of results\<close>

lemma js_le_zero_iff: "js_le (Fin 0) v \<longleftrightarrow> v = PInf \<or> (\<exists>x. v = Fin x \<and> 0 \<le> x)"
  by (cases v) (auto simp add: js_le_def)

lemma js_gt_zero_iff: "js_gt v (Fin 0) \<longleftrightarrow> v = PInf \<or> (\<exists>x. v = Fin x \<and> 0 < x)"
  by (cases v) (auto simp add: js_gt_def)

lemma js_gt_Fin: "js_gt (Fin x) (Fin y) = (y < x)"
  by (simp add: js_gt_def)

lemma rnd_nonneg:
  assumes "0 \<le> x" shows "js_le (Fin 0) (rnd a x)"
proof (cases "x = 0")
  case True
  then show ?thesis by (simp add: rnd_zero js_le_def)
next
  case False
  with assms have "0 < x" by simp
  from binary64_pos [OF this] show ?thesis
    by (cases a) (auto simp add: js_le_zero_iff assms)
qed

lemma js_div_by_Fin_nonneg:
  assumes "js_le (Fin 0) x" "0 < d"
  shows "js_le (Fin 0) (js_div a x (Fin d))"
proof -
  from assms(1) consider "x = PInf" | n where "x = Fin n" "0 \<le> n"
    by (auto simp add: js_le_zero_iff)
  then show ?thesis
  proof cases
    case 1
    then show ?thesis using assms(2) by (simp add: js_le_def)
  next
    case 2
    have "js_le (Fin 0) (rnd a (n / d))" using 2 assms(2) by (intro rnd_nonneg) simp
    then show ?thesis using 2 assms(2) by simp
  qed
qed

lemma js_div_Fin_nonneg:
  assumes "0 \<le> n" "js_gt y (Fin 0)"
  shows "js_le (Fin 0) (js_div a (Fin n) y)"
proof -
  from assms(2) consider "y = PInf" | d where "y = Fin d" "0 < d"
    by (auto simp add: js_gt_zero_iff)
  then show ?thesis
  proof cases
    case 1
    then show ?thesis by (simp add: js_le_def)
  next
    case 2
    then show ?thesis using js_div_by_Fin_nonneg [of "Fin n" d a] assms(1)
      by (simp add: js_le_def)
  qed
qed

lemma js_mul_100_nonneg:
  assumes "js_le (Fin 0) x"
  shows "js_le (Fin 0) (js_mul a x (Fin 100))"
proof -
  from assms consider "x = PInf" | n where "x = Fin n" "0 \<le> n"
    by (auto simp add: js_le_zero_iff)
  then show ?thesis
  proof cases
    case 1
    then show ?thesis by (simp add: js_le_def)
  next
    case 2
    have "js_le (Fin 0) (rnd a (n * 100))" using 2 by (intro rnd_nonneg) simp
    then show ?thesis using 2 by simp
  qed
qed

lemma js_mul_nonneg:
  assumes "0 \<le> x" "js_le (Fin 0) y"
  shows "js_mul a (Fin x) y = NaN \<or> js_le (Fin 0) (js_mul a (Fin x) y)"
proof -
  from assms(2) consider "y = PInf" | n where "y = Fin n" "0 \<le> n"
    by (auto simp add: js_le_zero_iff)
  then show ?thesis
  proof cases
    case 1
    then show ?thesis using assms(1) by (simp add: js_le_def)
  next
    case 2
    have "js_le (Fin 0) (rnd a (x * n))" using 2 assms(1) by (intro rnd_nonneg) simp
    then show ?thesis using 2 by simp
  qed
qed

subsection \<open>The two outcomes of \<open>calculateMetrics\<close>\<close>

lemma parseFloat_empty: "parseFloat a [] = NaN"
  by (simp add: parseFloat_def StrUnsignedDecimalLiteral_def)

lemma calculateMetrics_invalid:
  assumes "parseFloat a (investmentCost st) = NaN \<or> parseFloat a (annualNetSales st) = NaN
           \<or> parseFloat a (ebitdaPercentage st) = NaN \<or> parseFloat a (annualRentCam st) = NaN"
  shows "calculateMetrics a st =
           st\<lparr>salesToInvestmentRatio := None, paybackPeriod := None, roi := None,
              rentFactor := None\<rparr>"
  using assms by (auto simp add: calculateMetrics_def Let_def isNaN_def)

lemma calculateMetrics_finite:
  assumes "parseFloat a (investmentCost st) = Fin tic"
      and "parseFloat a (annualNetSales st) = Fin pans"
      and "parseFloat a (ebitdaPercentage st) = Fin ep"
      and "parseFloat a (annualRentCam st) = Fin arc"
  shows "calculateMetrics a st =
           st\<lparr>salesToInvestmentRatio :=
                 (if 0 < tic then Some (js_div a (Fin pans) (Fin tic)) else None),
              paybackPeriod :=
                 (if js_gt (js_mul a (Fin pans) (js_div a (Fin ep) (Fin 100))) (Fin 0)
                  then Some (js_div a (Fin tic) (js_mul a (Fin pans) (js_div a (Fin ep) (Fin 100))))
                  else None),
              roi :=
                 (if 0 < tic
                  then Some (js_mul a (js_div a (js_mul a (Fin pans) (js_div a (Fin ep) (Fin 100)))
                                         (Fin tic)) (Fin 100))
                  else None),
              rentFactor :=
                 (if 0 < pans then Some (js_mul a (js_div a (Fin arc) (Fin pans)) (Fin 100))
                  else None)\<rparr>"
  using assms
  by (simp add: calculateMetrics_def Let_def isNaN_def rnd_not_NaN js_gt_Fin del: js_div.simps js_mul.simps)
    (simp add: rnd_not_NaN)

subsection \<open>Evaluation on numerals\<close>

lemma floor_rat_numeral:
  "\<lfloor>(numeral k :: rat) / numeral l\<rfloor> = numeral k div numeral l"
  "\<lfloor>(1 :: rat) / numeral l\<rfloor> = 1 div numeral l"
  by (metis floor_divide_of_int_eq of_int_numeral,
      metis floor_divide_of_int_eq of_int_numeral of_int_1)

lemma ceiling_rat_numeral:
  "\<lceil>(numeral k :: rat) / numeral l\<rceil> = - (- numeral k div numeral l)"
  "\<lceil>(1 :: rat) / numeral l\<rceil> = - (- 1 div numeral l)"
  by (metis ceiling_def floor_divide_of_int_eq of_int_minus minus_divide_left of_int_numeral,
      metis ceiling_def floor_divide_of_int_eq of_int_minus minus_divide_left of_int_numeral
        of_int_1)

lemma bitlen_numeral:
  "bitlen 1 = 1"
  "bitlen (numeral (Num.Bit0 n)) = bitlen (numeral n) + 1"
  "bitlen (numeral (Num.Bit1 n)) = bitlen (numeral n) + 1"
  by (subst compute_bitlen, simp)+

lemmas binary64_eval = binary64_def round_half_even_def Let_def ilog2_def pow2_def
  floor_rat_numeral ceiling_rat_numeral bitlen_numeral

lemmas parse_eval = parseFloat_def StrUnsignedDecimalLiteral_def isDigit_def isWhiteSpace_def
  digitsVal_def digitVal_def exponentPart_def signedDigits_def pow10_def

lemma parse_500000: "parseFloat Binary64 ''500000'' = Fin 500000"
  by (simp add: parse_eval binary64_eval)

lemma parse_1500000: "parseFloat Binary64 ''1500000'' = Fin 1500000"
  by (simp add: parse_eval binary64_eval)

lemma parse_12_5: "parseFloat Binary64 ''12.5'' = Fin (25 / 2)"
  by (simp add: parse_eval binary64_eval)

lemma parse_120000: "parseFloat Binary64 ''120000'' = Fin 120000"
  by (simp add: parse_eval binary64_eval)

lemma inputs_simps:
  "investmentCost (inputs i s e r) = i" "annualNetSales (inputs i s e r) = s"
  "ebitdaPercentage (inputs i s e r) = e" "annualRentCam (inputs i s e r) = r"
  by (simp_all add: inputs_def)

section \<open>The metrics\<close>

text \<open>
  Claim C1. When all four fields parse to finite numbers, \<open>calculateMetrics\<close> sets
  each metric by its own formula and its own guard, with the projected annual EBITDA
  \<open>pae = annualNetSales * (ebitdaPercentage / 100)\<close>: the sales-to-investment ratio
  is \<open>annualNetSales / investmentCost\<close> if \<open>investmentCost > 0\<close>, the payback period
  is \<open>investmentCost / pae\<close> if \<open>pae > 0\<close>, the ROI is \<open>(pae / investmentCost) * 100\<close>
  if \<open>investmentCost > 0\<close>, the rent factor is \<open>(annualRentCam / annualNetSales) * 100\<close>
  if \<open>annualNetSales > 0\<close>; a metric whose guard fails is \<^verbatim>\<open>null\<close>.
\<close>

theorem calculateMetrics_formulas:
  assumes "parseFloat a (investmentCost st) = Fin tic"
      and "parseFloat a (annualNetSales st) = Fin pans"
      and "parseFloat a (ebitdaPercentage st) = Fin ep"
      and "parseFloat a (annualRentCam st) = Fin arc"
  shows "let pae = js_mul a (Fin pans) (js_div a (Fin ep) (Fin 100));
             st' = calculateMetrics a st
         in salesToInvestmentRatio st' =
              (if 0 < tic then Some (js_div a (Fin pans) (Fin tic)) else None)
          \<and> paybackPeriod st' =
              (if js_gt pae (Fin 0) then Some (js_div a (Fin tic) pae) else None)
          \<and> roi st' =
              (if 0 < tic then Some (js_mul a (js_div a pae (Fin tic)) (Fin 100)) else None)
          \<and> rentFactor st' =
              (if 0 < pans then Some (js_mul a (js_div a (Fin arc) (Fin pans)) (Fin 100))
               else None)"
  unfolding Let_def calculateMetrics_finite [OF assms] by simp

lemma example_arith:
  "js_div Binary64 (Fin (25 / 2)) (Fin 100) = Fin (1 / 8)"
  "js_mul Binary64 (Fin 1500000) (Fin (1 / 8)) = Fin 187500"
  "js_div Binary64 (Fin 1500000) (Fin 500000) = Fin 3"
  "js_div Binary64 (Fin 500000) (Fin 187500) = Fin (6004799503160661 / 2251799813685248)"
  "js_mul Binary64 (js_div Binary64 (Fin 187500) (Fin 500000)) (Fin 100) = Fin (75 / 2)"
  "js_mul Binary64 (js_div Binary64 (Fin 120000) (Fin 1500000)) (Fin 100) = Fin 8"
  by (simp_all add: binary64_eval)

text \<open>
  The values of the example of the specification, in double precision: EBITDA 187500,
  ratio 3, payback period 8/3 rounded, ROI 37.5, rent factor 8.
\<close>

theorem calculateMetrics_formulas_witness:
  "parseFloat Binary64 ''500000'' = Fin 500000
   \<and> parseFloat Binary64 ''1500000'' = Fin 1500000
   \<and> parseFloat Binary64 ''12.5'' = Fin (25 / 2)
   \<and> parseFloat Binary64 ''120000'' = Fin 120000
   \<and> js_mul Binary64 (Fin 1500000) (js_div Binary64 (Fin (25 / 2)) (Fin 100)) = Fin 187500
   \<and> salesToInvestmentRatio
        (calculateMetrics Binary64 (inputs ''500000'' ''1500000'' ''12.5'' ''120000''))
       = Some (Fin 3)
   \<and> paybackPeriod
        (calculateMetrics Binary64 (inputs ''500000'' ''1500000'' ''12.5'' ''120000''))
       = Some (Fin (6004799503160661 / 2251799813685248))
   \<and> roi (calculateMetrics Binary64 (inputs ''500000'' ''1500000'' ''12.5'' ''120000''))
       = Some (Fin (75 / 2))
   \<and> rentFactor
        (calculateMetrics Binary64 (inputs ''500000'' ''1500000'' ''12.5'' ''120000''))
       = Some (Fin 8)"
proof -
  from calculateMetrics_formulas [of Binary64
      "inputs ''500000'' ''1500000'' ''12.5'' ''120000''" 500000 1500000 "25 / 2" 120000]
  show ?thesis
    unfolding inputs_simps Let_def example_arith
    using parse_500000 parse_1500000 parse_12_5 parse_120000
    by (simp add: js_gt_Fin)
qed

text \<open>
  The guards are independent: with a zero investment cost the ratio and the ROI are
  \<^verbatim>\<open>null\<close> while the payback period and the rent factor are set; with zero net
  sales it is the other way round.
\<close>

lemma guards_independent:
  "salesToInvestmentRatio (calculateMetrics a (inputs ''0'' ''100'' ''50'' ''10'')) = None"
  "paybackPeriod (calculateMetrics a (inputs ''0'' ''100'' ''50'' ''10'')) = Some (Fin 0)"
  "roi (calculateMetrics a (inputs ''0'' ''100'' ''50'' ''10'')) = None"
  "rentFactor (calculateMetrics a (inputs ''0'' ''100'' ''50'' ''10'')) = Some (Fin 10)"
  "salesToInvestmentRatio (calculateMetrics a (inputs ''100'' ''0'' ''50'' ''10''))
     = Some (Fin 0)"
  "paybackPeriod (calculateMetrics a (inputs ''100'' ''0'' ''50'' ''10'')) = None"
  "roi (calculateMetrics a (inputs ''100'' ''0'' ''50'' ''10'')) = Some (Fin 0)"
  "rentFactor (calculateMetrics a (inputs ''100'' ''0'' ''50'' ''10'')) = None"
  by (cases a;
      simp add: calculateMetrics_def inputs_def isNaN_def js_gt_def parse_eval binary64_eval)+

text \<open>
  Claim C2. If any of the four fields is empty or does not parse as a number
  (\<^verbatim>\<open>parseFloat\<close> gives \<open>NaN\<close>), all four metrics are \<^verbatim>\<open>null\<close>: nothing is
  computed from the fields that do parse.
\<close>

theorem invalid_input_all_absent:
  assumes "investmentCost st = [] \<or> parseFloat a (investmentCost st) = NaN
           \<or> annualNetSales st = [] \<or> parseFloat a (annualNetSales st) = NaN
           \<or> ebitdaPercentage st = [] \<or> parseFloat a (ebitdaPercentage st) = NaN
           \<or> annualRentCam st = [] \<or> parseFloat a (annualRentCam st) = NaN"
  shows "salesToInvestmentRatio (calculateMetrics a st) = None
         \<and> paybackPeriod (calculateMetrics a st) = None
         \<and> roi (calculateMetrics a st) = None
         \<and> rentFactor (calculateMetrics a st) = None"
proof -
  from assms have "parseFloat a (investmentCost st) = NaN
      \<or> parseFloat a (annualNetSales st) = NaN
      \<or> parseFloat a (ebitdaPercentage st) = NaN
      \<or> parseFloat a (annualRentCam st) = NaN"
    by (auto simp add: parseFloat_empty)
  then show ?thesis by (simp add: calculateMetrics_invalid)
qed

theorem invalid_input_all_absent_witness:
  "annualNetSales (inputs ''500000'' [] ''12.5'' ''120000'') = []
   \<and> salesToInvestmentRatio
        (calculateMetrics Binary64 (inputs ''500000'' [] ''12.5'' ''120000'')) = None
   \<and> paybackPeriod (calculateMetrics Binary64 (inputs ''500000'' [] ''12.5'' ''120000'')) = None
   \<and> roi (calculateMetrics Binary64 (inputs ''500000'' [] ''12.5'' ''120000'')) = None
   \<and> rentFactor (calculateMetrics Binary64 (inputs ''500000'' [] ''12.5'' ''120000'')) = None"
  using invalid_input_all_absent [of "inputs ''500000'' [] ''12.5'' ''120000''" Binary64]
  by (simp add: inputs_simps)

text \<open>A field that is not a number, here in the third box, closes the gate as well.\<close>

lemma non_numeric_all_absent:
  "parseFloat a ''abc'' = NaN"
  "calculateMetrics a (inputs ''500000'' ''1500000'' ''abc'' ''120000'')
     = inputs ''500000'' ''1500000'' ''abc'' ''120000''"
proof -
  show n: "parseFloat a ''abc'' = NaN"
    by (simp add: parse_eval Let_def)
  show "calculateMetrics a (inputs ''500000'' ''1500000'' ''abc'' ''120000'')
     = inputs ''500000'' ''1500000'' ''abc'' ''120000''"
    by (subst calculateMetrics_invalid) (simp_all add: inputs_simps n, simp add: inputs_def)
qed

section \<open>The classifier\<close>


text \<open>
  Claim C7. For an absent (\<^verbatim>\<open>null\<close>) metric the classifier returns the status
  ``N/A'' in grey (unknown), whatever the metric kind and the benchmark; so does the
  classifier of \<^verbatim>\<open>unnamed/part_000\<close>.
\<close>

theorem absent_status:
  "getBenchmarkStatus None b ty = \<lparr>label = ''N/A'', color = ''text-gray-500''\<rparr>
   \<and> getBenchmarkStatus_part_000 None b ty = \<lparr>label = ''N/A'', color = ''text-gray-500''\<rparr>"
  by (simp add: getBenchmarkStatus_def getBenchmarkStatus_part_000_def)

theorem absent_status_witness:
  "getBenchmarkStatus None (Band (Fin 5) (Fin 7)) ''paybackPeriod''
     = \<lparr>label = ''N/A'', color = ''text-gray-500''\<rparr>
   \<and> getBenchmarkStatus_part_000 None (Band (Fin 5) (Fin 7)) ''paybackPeriod''
     = \<lparr>label = ''N/A'', color = ''text-gray-500''\<rparr>"
  by (rule absent_status)



lemma paybackPeriod_status_examples:
  "getBenchmarkStatus (Some (Fin (50001 / 10000))) (Band (Fin 5) (Fin 7)) ''paybackPeriod''
     = \<lparr>label = ''Good'', color = ''text-yellow-600''\<rparr>"
  "getBenchmarkStatus (Some (Fin (6999 / 1000))) (Band (Fin 5) (Fin 7)) ''paybackPeriod''
     = \<lparr>label = ''Good'', color = ''text-yellow-600''\<rparr>"
  by (simp_all add: getBenchmarkStatus_def js_le_def)



text \<open>
  A metric can be \<open>NaN\<close> only when inputs parse to infinities. \<open>NaN\<close> is not
  \<^verbatim>\<open>null\<close>; it compares false with every benchmark and gets the status of the last
  branch.
\<close>

lemma NaN_metric:
  "salesToInvestmentRatio (calculateMetrics a (inputs ''Infinity'' ''Infinity'' ''1'' ''1''))
     = Some NaN"
  by (cases a)
    (simp_all add: calculateMetrics_def inputs_def isNaN_def js_gt_def parse_eval
      binary64_eval)

lemma NaN_status:
  "getBenchmarkStatus (Some NaN) (Band (Fin 5) (Fin 7)) ''paybackPeriod''
     = \<lparr>label = ''High Risk'', color = ''text-red-600''\<rparr>"
  "getBenchmarkStatus (Some NaN) (Threshold (Fin (3 / 2))) ''salesToInvestmentRatio''
     = \<lparr>label = ''Below Target'', color = ''text-red-600''\<rparr>"
  "getBenchmarkStatus (Some NaN) (Threshold (Fin 10)) ''rentFactor''
     = \<lparr>label = ''High'', color = ''text-red-600''\<rparr>"
  by (simp_all add: getBenchmarkStatus_def js_le_def js_gt_def)




section \<open>Degenerate and negative inputs\<close>

lemma js_div_zero:
  assumes "js_gt y (Fin 0)" shows "js_div a (Fin 0) y = Fin 0"
  using assms by (auto simp add: js_gt_zero_iff rnd_zero)

lemma pae_nonneg:
  assumes "0 < pans" "0 \<le> ep"
  shows "js_le (Fin 0) (js_mul a (Fin pans) (js_div a (Fin ep) (Fin 100)))"
proof -
  have "js_le (Fin 0) (js_div a (Fin ep) (Fin 100))"
    using assms(2) by (intro js_div_by_Fin_nonneg) (simp_all add: js_le_def)
  then consider "js_div a (Fin ep) (Fin 100) = PInf"
    | v where "js_div a (Fin ep) (Fin 100) = Fin v" "0 \<le> v"
    by (auto simp add: js_le_zero_iff)
  then show ?thesis
  proof cases
    case 1
    then show ?thesis using assms(1) by (simp add: js_le_def)
  next
    case 2
    have "js_le (Fin 0) (rnd a (pans * v))" using 2 assms(1) by (intro rnd_nonneg) simp
    then show ?thesis using 2 by simp
  qed
qed

text \<open>
  Claim C5. With an investment cost of zero and the other three fields positive, the
  sales-to-investment ratio and the ROI are \<^verbatim>\<open>null\<close> and the rent factor is set.
  The payback period is guarded by the projected EBITDA, not by the investment cost: it
  is not \<^verbatim>\<open>null\<close> but 0 whenever the projected EBITDA is positive, as it always is in
  exact arithmetic.
\<close>

theorem zero_investment:
  assumes "parseFloat a (investmentCost st) = Fin 0"
      and "parseFloat a (annualNetSales st) = Fin pans" and "0 < pans"
      and "parseFloat a (ebitdaPercentage st) = Fin ep" and "0 < ep"
      and "parseFloat a (annualRentCam st) = Fin arc" and "0 < arc"
  shows "salesToInvestmentRatio (calculateMetrics a st) = None
         \<and> roi (calculateMetrics a st) = None
         \<and> rentFactor (calculateMetrics a st)
             = Some (js_mul a (js_div a (Fin arc) (Fin pans)) (Fin 100))
         \<and> paybackPeriod (calculateMetrics a st)
             = (if js_gt (js_mul a (Fin pans) (js_div a (Fin ep) (Fin 100))) (Fin 0)
                then Some (Fin 0) else None)
         \<and> (a = Exact \<longrightarrow> paybackPeriod (calculateMetrics a st) = Some (Fin 0))"
proof -
  note f = calculateMetrics_finite [OF assms(1) assms(2) assms(4) assms(6)]
  have p: "paybackPeriod (calculateMetrics a st)
             = (if js_gt (js_mul a (Fin pans) (js_div a (Fin ep) (Fin 100))) (Fin 0)
                then Some (Fin 0) else None)"
    unfolding f by (simp add: js_div_zero del: js_div.simps js_mul.simps)
  have e: "a = Exact \<longrightarrow> paybackPeriod (calculateMetrics a st) = Some (Fin 0)"
  proof
    assume x: "a = Exact"
    have "js_gt (js_mul a (Fin pans) (js_div a (Fin ep) (Fin 100))) (Fin 0)"
      unfolding x using assms(3,5) by (simp add: js_gt_Fin)
    with p show "paybackPeriod (calculateMetrics a st) = Some (Fin 0)" by simp
  qed
  show ?thesis
    using p e assms(3) unfolding f by (simp del: js_div.simps js_mul.simps)
qed

lemma parse_0: "parseFloat Binary64 ''0'' = Fin 0"
  by (simp add: parse_eval binary64_eval)

lemma pae_example:
  "js_mul Binary64 (Fin 1500000) (js_div Binary64 (Fin (25 / 2)) (Fin 100)) = Fin 187500"
  by (simp add: binary64_eval)

theorem zero_investment_witness:
  "parseFloat Binary64 ''0'' = Fin 0
   \<and> salesToInvestmentRatio
        (calculateMetrics Binary64 (inputs ''0'' ''1500000'' ''12.5'' ''120000'')) = None
   \<and> roi (calculateMetrics Binary64 (inputs ''0'' ''1500000'' ''12.5'' ''120000'')) = None
   \<and> rentFactor (calculateMetrics Binary64 (inputs ''0'' ''1500000'' ''12.5'' ''120000''))
       = Some (Fin 8)"
proof -
  have f: "js_mul Binary64 (js_div Binary64 (Fin 120000) (Fin 1500000)) (Fin 100) = Fin 8"
    by (simp add: binary64_eval)
  from zero_investment [of Binary64 "inputs ''0'' ''1500000'' ''12.5'' ''120000''"
      1500000 "25 / 2" 120000]
  show ?thesis
    unfolding inputs_simps f
    using parse_0 parse_1500000 parse_12_5 parse_120000 by simp
qed

text \<open>The payback period of the same input is 0, not \<^verbatim>\<open>null\<close>.\<close>

theorem zero_investment_counterexample:
  "parseFloat Binary64 ''0'' = Fin 0
   \<and> parseFloat Binary64 ''1500000'' = Fin 1500000
   \<and> parseFloat Binary64 ''12.5'' = Fin (25 / 2)
   \<and> parseFloat Binary64 ''120000'' = Fin 120000
   \<and> paybackPeriod (calculateMetrics Binary64 (inputs ''0'' ''1500000'' ''12.5'' ''120000''))
       = Some (Fin 0)"
proof -
  have "paybackPeriod (calculateMetrics Binary64 (inputs ''0'' ''1500000'' ''12.5'' ''120000''))
          = Some (Fin 0)"
    by (subst calculateMetrics_finite [where tic = 0 and pans = 1500000 and ep = "25 / 2"
          and arc = 120000])
      (simp_all add: inputs_simps parse_0 parse_1500000 parse_12_5 parse_120000 pae_example
        js_gt_Fin del: js_div.simps js_mul.simps, simp add: binary64_zero)
  then show ?thesis
    using parse_0 parse_1500000 parse_12_5 parse_120000 by simp
qed

text \<open>
  Claim C8. With four finite parses, a non-positive investment cost makes the
  sales-to-investment ratio and the ROI \<^verbatim>\<open>null\<close>, non-positive net sales make the
  rent factor \<^verbatim>\<open>null\<close>, and a non-positive projected EBITDA makes the payback
  period \<^verbatim>\<open>null\<close>: every metric that is set was divided by a strictly positive
  number, so nothing is divided by zero. A metric that is set is not negative when its
  numerator is not negative; nothing more is guarded, and a negative numerator gives a
  negative metric.
\<close>

theorem guards_positive_divisors:
  assumes "parseFloat a (investmentCost st) = Fin tic"
      and "parseFloat a (annualNetSales st) = Fin pans"
      and "parseFloat a (ebitdaPercentage st) = Fin ep"
      and "parseFloat a (annualRentCam st) = Fin arc"
  shows "let pae = js_mul a (Fin pans) (js_div a (Fin ep) (Fin 100));
             st' = calculateMetrics a st
         in (tic \<le> 0 \<longrightarrow> salesToInvestmentRatio st' = None \<and> roi st' = None)
          \<and> (pans \<le> 0 \<longrightarrow> rentFactor st' = None)
          \<and> (\<not> js_gt pae (Fin 0) \<longrightarrow> paybackPeriod st' = None)
          \<and> (\<forall>v. salesToInvestmentRatio st' = Some v \<longrightarrow>
                0 < tic \<and> v = js_div a (Fin pans) (Fin tic) \<and> (0 \<le> pans \<longrightarrow> js_le (Fin 0) v))
          \<and> (\<forall>v. paybackPeriod st' = Some v \<longrightarrow>
                js_gt pae (Fin 0) \<and> v = js_div a (Fin tic) pae \<and> (0 \<le> tic \<longrightarrow> js_le (Fin 0) v))
          \<and> (\<forall>v. roi st' = Some v \<longrightarrow>
                0 < tic \<and> v = js_mul a (js_div a pae (Fin tic)) (Fin 100)
                \<and> (js_le (Fin 0) pae \<longrightarrow> js_le (Fin 0) v))
          \<and> (\<forall>v. rentFactor st' = Some v \<longrightarrow>
                0 < pans \<and> v = js_mul a (js_div a (Fin arc) (Fin pans)) (Fin 100)
                \<and> (0 \<le> arc \<longrightarrow> js_le (Fin 0) v))"
proof -
  define pae where "pae = js_mul a (Fin pans) (js_div a (Fin ep) (Fin 100))"
  note f = calculateMetrics_finite [OF assms, folded pae_def]
  have s: "0 < tic \<Longrightarrow> 0 \<le> pans \<Longrightarrow> js_le (Fin 0) (js_div a (Fin pans) (Fin tic))"
    by (intro js_div_by_Fin_nonneg) (simp_all add: js_le_def)
  have p: "js_gt pae (Fin 0) \<Longrightarrow> 0 \<le> tic \<Longrightarrow> js_le (Fin 0) (js_div a (Fin tic) pae)"
    by (intro js_div_Fin_nonneg)
  have r: "0 < tic \<Longrightarrow> js_le (Fin 0) pae
      \<Longrightarrow> js_le (Fin 0) (js_mul a (js_div a pae (Fin tic)) (Fin 100))"
    by (intro js_mul_100_nonneg js_div_by_Fin_nonneg)
  have t: "0 < pans \<Longrightarrow> 0 \<le> arc
      \<Longrightarrow> js_le (Fin 0) (js_mul a (js_div a (Fin arc) (Fin pans)) (Fin 100))"
    by (intro js_mul_100_nonneg js_div_by_Fin_nonneg) (simp_all add: js_le_def)
  show ?thesis
    unfolding Let_def pae_def [symmetric] f
    using s p r t by (auto simp del: js_div.simps js_mul.simps split: if_splits)
qed

lemma parse_neg_100: "parseFloat Binary64 ''-100'' = Fin (- 100)"
  by (simp add: parse_eval binary64_eval)

lemma parse_100: "parseFloat Binary64 ''100'' = Fin 100"
  by (simp add: parse_eval binary64_eval)

lemma parse_10: "parseFloat Binary64 ''10'' = Fin 10"
  by (simp add: parse_eval binary64_eval)

lemma pae_100: "js_mul Binary64 (Fin 100) (js_div Binary64 (Fin 100) (Fin 100)) = Fin 100"
  by (simp add: binary64_eval)

theorem guards_positive_divisors_witness:
  "parseFloat Binary64 ''-100'' = Fin (- 100)
   \<and> salesToInvestmentRatio (calculateMetrics Binary64 (inputs ''-100'' ''100'' ''100'' ''10''))
       = None
   \<and> roi (calculateMetrics Binary64 (inputs ''-100'' ''100'' ''100'' ''10'')) = None"
  using guards_positive_divisors [of Binary64 "inputs ''-100'' ''100'' ''100'' ''10''"
      "- 100" 100 100 10]
  unfolding inputs_simps Let_def
  using parse_neg_100 parse_100 parse_10 by simp

text \<open>
  A negative investment cost with a positive EBITDA: the payback period is set, and
  negative.
\<close>

theorem guards_positive_divisors_counterexample:
  "parseFloat Binary64 ''-100'' = Fin (- 100)
   \<and> parseFloat Binary64 ''100'' = Fin 100
   \<and> parseFloat Binary64 ''10'' = Fin 10
   \<and> paybackPeriod (calculateMetrics Binary64 (inputs ''-100'' ''100'' ''100'' ''10''))
       = Some (Fin (- 1))
   \<and> js_lt (Fin (- 1)) (Fin 0)"
proof -
  have d: "js_div Binary64 (Fin (- 100)) (Fin 100) = Fin (- 1)"
    by (simp add: binary64_eval)
  have "paybackPeriod (calculateMetrics Binary64 (inputs ''-100'' ''100'' ''100'' ''10''))
          = Some (Fin (- 1))"
    by (subst calculateMetrics_finite [where tic = "- 100" and pans = 100 and ep = 100
          and arc = 10])
      (simp_all add: inputs_simps parse_neg_100 parse_100 parse_10 pae_100
        js_gt_Fin d del: js_div.simps js_mul.simps)
  then show ?thesis
    using parse_neg_100 parse_100 parse_10 by simp
qed

section \<open>Positive inputs\<close>

text \<open>
  Claim C9. When all four fields parse to strictly positive finite numbers, the
  sales-to-investment ratio, the ROI and the rent factor are set. The payback period is
  \<^verbatim>\<open>null\<close> exactly when the computed projected EBITDA is zero: never in exact
  arithmetic, but in double precision the product
  \<open>annualNetSales * (ebitdaPercentage / 100)\<close> of two positive numbers can underflow
  to zero.
\<close>

theorem positive_inputs_present:
  assumes "parseFloat a (investmentCost st) = Fin tic" and "0 < tic"
      and "parseFloat a (annualNetSales st) = Fin pans" and "0 < pans"
      and "parseFloat a (ebitdaPercentage st) = Fin ep" and "0 < ep"
      and "parseFloat a (annualRentCam st) = Fin arc" and "0 < arc"
  shows "salesToInvestmentRatio (calculateMetrics a st) \<noteq> None
         \<and> roi (calculateMetrics a st) \<noteq> None
         \<and> rentFactor (calculateMetrics a st) \<noteq> None
         \<and> (paybackPeriod (calculateMetrics a st) = None
              \<longleftrightarrow> js_mul a (Fin pans) (js_div a (Fin ep) (Fin 100)) = Fin 0)
         \<and> (a = Exact \<longrightarrow> paybackPeriod (calculateMetrics a st) \<noteq> None)"
proof -
  define pae where "pae = js_mul a (Fin pans) (js_div a (Fin ep) (Fin 100))"
  note f = calculateMetrics_finite [OF assms(1,3,5,7), folded pae_def]
  have "js_le (Fin 0) pae"
    unfolding pae_def using assms(4,6) by (intro pae_nonneg) simp_all
  then have g: "js_gt pae (Fin 0) \<longleftrightarrow> pae \<noteq> Fin 0"
    by (auto simp add: js_le_zero_iff js_gt_zero_iff)
  have e: "a = Exact \<longrightarrow> pae \<noteq> Fin 0"
  proof
    assume x: "a = Exact"
    show "pae \<noteq> Fin 0" unfolding pae_def x using assms(4,6) by simp
  qed
  show ?thesis
    unfolding pae_def [symmetric] f
    using assms(2,4) g e by (simp del: js_div.simps js_mul.simps)
qed

theorem positive_inputs_present_witness:
  "parseFloat Binary64 ''500000'' = Fin 500000
   \<and> salesToInvestmentRatio
        (calculateMetrics Binary64 (inputs ''500000'' ''1500000'' ''12.5'' ''120000'')) \<noteq> None
   \<and> roi (calculateMetrics Binary64 (inputs ''500000'' ''1500000'' ''12.5'' ''120000'')) \<noteq> None
   \<and> rentFactor
        (calculateMetrics Binary64 (inputs ''500000'' ''1500000'' ''12.5'' ''120000'')) \<noteq> None
   \<and> paybackPeriod
        (calculateMetrics Binary64 (inputs ''500000'' ''1500000'' ''12.5'' ''120000'')) \<noteq> None"
  using positive_inputs_present [of Binary64
      "inputs ''500000'' ''1500000'' ''12.5'' ''120000''" 500000 1500000 "25 / 2" 120000]
  unfolding inputs_simps pae_example
  using parse_500000 parse_1500000 parse_12_5 parse_120000 by simp

text \<open>
  The underflow: net sales and EBITDA percentage both \<open>10\<^sup>-\<^sup>1\<^sup>6\<^sup>5\<close>. Both parse to
  positive doubles, at most twice the decimal; their product, after the division by
  100, is below half the least subnormal \<open>2\<^sup>-\<^sup>1\<^sup>0\<^sup>7\<^sup>4\<close> and rounds to zero.
\<close>

lemma parse_1: "parseFloat Binary64 ''1'' = Fin 1"
  by (simp add: parse_eval binary64_eval)

lemma parse_tiny: "parseFloat Binary64 tiny_decimal = binary64 (1 / 10 ^ 165)"
  by (simp add: tiny_decimal_def parse_eval Let_def)

lemma tiny_normal: "pow2 (- 1022) \<le> 1 / 10 ^ 165" "(1 :: rat) / 10 ^ 165 < pow2 1023"
  by (simp_all add: pow2_def)

lemma tiny_product: "(2 / 10 ^ 165) * (2 * ((2 / 10 ^ 165) / 100)) < pow2 (- 1075)"
  by (simp add: pow2_def)

lemma binary64_pos_finite:
  assumes "0 \<le> x" "x < pow2 1023"
  shows "\<exists>v. binary64 x = Fin v \<and> 0 \<le> v \<and> v \<le> 2 * x"
proof (cases "x = 0")
  case True
  then show ?thesis by (simp add: binary64_zero)
next
  case False
  with assms have x: "0 < x" by simp
  have "pow2 (1023 + 1) = 2 * pow2 1023" by (rule pow2_succ)
  then have b: "2 * x < pow2 1024" using assms(2) by simp
  from binary64_pos [OF x] show ?thesis
  proof
    assume i: "binary64 x = PInf"
    define u where "u = pow2 (max (ilog2 \<bar>x\<bar>) (- 1022) - 52)"
    have u: "0 < u" by (simp add: u_def pow2_pos)
    have "of_int (round_half_even (\<bar>x\<bar> / u)) \<le> 2 * (\<bar>x\<bar> / u)"
      using u x by (intro round_half_even_le) simp
    then have "of_int (round_half_even (\<bar>x\<bar> / u)) * u \<le> 2 * (\<bar>x\<bar> / u) * u"
      using u by (intro mult_right_mono) simp_all
    then have "of_int (round_half_even (\<bar>x\<bar> / u)) * u < pow2 1024" using u x b by simp
    then have "binary64 x \<noteq> PInf"
      using x by (simp add: binary64_def Let_def u_def)
    with i show ?thesis by simp
  qed simp
qed

theorem positive_inputs_present_counterexample:
  "js_gt (parseFloat Binary64 ''1'') (Fin 0) \<and> js_lt (parseFloat Binary64 ''1'') PInf
   \<and> js_gt (parseFloat Binary64 tiny_decimal) (Fin 0)
   \<and> js_lt (parseFloat Binary64 tiny_decimal) PInf
   \<and> paybackPeriod (calculateMetrics Binary64 (inputs ''1'' tiny_decimal tiny_decimal ''1''))
       = None"
proof -
  from binary64_normal [OF tiny_normal] obtain v
    where v: "parseFloat Binary64 tiny_decimal = Fin v" "0 < v" "v \<le> 2 / 10 ^ 165"
    unfolding parse_tiny by auto
  have "v / 100 < pow2 1023" using v(3) tiny_normal(2) by simp
  then obtain w where w: "binary64 (v / 100) = Fin w" "0 \<le> w" "w \<le> 2 * (v / 100)"
    using binary64_pos_finite [of "v / 100"] v(2) by auto
  have "w \<le> 2 * ((2 / 10 ^ 165) / 100)" using w(3) v(3) by simp
  then have "v * w \<le> (2 / 10 ^ 165) * (2 * ((2 / 10 ^ 165) / 100))"
    using v(2,3) w(2) by (intro mult_mono) simp_all
  then have "v * w < pow2 (- 1075)" using tiny_product by simp
  then have z: "binary64 (v * w) = Fin 0"
    using v(2) w(2) by (intro binary64_underflow) simp_all
  have "paybackPeriod (calculateMetrics Binary64 (inputs ''1'' tiny_decimal tiny_decimal ''1''))
          = None"
    by (subst calculateMetrics_finite [where tic = 1 and pans = v and ep = v and arc = 1])
      (simp_all add: inputs_simps parse_1 v(1) w(1) z js_gt_Fin)
  then show ?thesis using v(1,2) by (simp add: parse_1 js_gt_Fin)
qed

section \<open>Payback period and ROI\<close>

subsection \<open>Rounding error\<close>

lemma pow2_add: "pow2 (d + e) = pow2 d * pow2 e"
  by (simp add: pow2_powi power_int_add)

lemma pow2_minus: "pow2 (- e) = 1 / pow2 e"
  by (simp add: pow2_powi power_int_minus_divide)

lemma round_half_even_error: "\<bar>of_int (round_half_even x) - x\<bar> \<le> 1 / 2"
proof -
  define n where "n = \<lfloor>x\<rfloor>"
  have f: "of_int n \<le> x" "x < of_int n + 1" unfolding n_def by linarith+
  from round_half_even_cases [of x]
  have "round_half_even x = n \<and> x - of_int n \<le> 1 / 2
      \<or> round_half_even x = n + 1 \<and> 1 / 2 \<le> x - of_int n"
    by (simp add: n_def)
  then show ?thesis
  proof
    assume "round_half_even x = n \<and> x - of_int n \<le> 1 / 2"
    then have "of_int (round_half_even x) = (of_int n :: rat)" "x - of_int n \<le> 1 / 2"
      by simp_all
    then show ?thesis using f by linarith
  next
    assume "round_half_even x = n + 1 \<and> 1 / 2 \<le> x - of_int n"
    then have "of_int (round_half_even x) = of_int n + (1 :: rat)" "1 / 2 \<le> x - of_int n"
      by simp_all
    then show ?thesis using f by linarith
  qed
qed

text \<open>
  In the normal range the rounded value is a double within half a unit in the last
  place: the relative error is at most \<open>2\<^sup>-\<^sup>5\<^sup>3\<close>.
\<close>

lemma binary64_rel_error:
  assumes "pow2 (- 1022) \<le> x" "x < pow2 1023"
  shows "\<exists>v. binary64 x = Fin v \<and> \<bar>v - x\<bar> \<le> x / 2 ^ 53"
proof -
  have x: "0 < x" using assms(1) pow2_pos [of "- 1022"] by simp
  have "pow2 (- 1022) < pow2 (ilog2 x + 1)" using assms(1) ilog2_upper [OF x] by simp
  then have "- 1022 < ilog2 x + 1" by (rule pow2_less_imp)
  then have e: "max (ilog2 \<bar>x\<bar>) (- 1022) = ilog2 x" using x by simp
  define u where "u = pow2 (ilog2 x - 52)"
  define m where "m = of_int (round_half_even (x / u)) * u"
  have u: "0 < u" by (simp add: u_def pow2_pos)
  have "pow2 (ilog2 x - 52 + - 1) = u * pow2 (- 1)" unfolding u_def by (rule pow2_add)
  then have h: "u / 2 = pow2 (ilog2 x - 53)" by (simp add: pow2_def)
  have "pow2 (ilog2 x - 53 + 53) = pow2 (ilog2 x - 53) * pow2 53" by (rule pow2_add)
  then have "pow2 (ilog2 x) = u / 2 * 2 ^ 53" unfolding h by (simp add: pow2_def)
  then have "u / 2 * 2 ^ 53 \<le> x" using ilog2_lower [OF x] by simp
  then have b: "u / 2 \<le> x / 2 ^ 53" by (simp add: field_simps)
  have "m - x = (of_int (round_half_even (x / u)) - x / u) * u"
    using u by (simp add: m_def field_simps)
  then have "\<bar>m - x\<bar> = \<bar>of_int (round_half_even (x / u)) - x / u\<bar> * u"
    using u by (simp add: abs_mult)
  also have "\<dots> \<le> 1 / 2 * u"
    using u round_half_even_error [of "x / u"] by (intro mult_right_mono) simp_all
  finally have d: "\<bar>m - x\<bar> \<le> x / 2 ^ 53" using b by simp
  from binary64_normal [OF assms] obtain v where v: "binary64 x = Fin v" by blast
  have "binary64 x = (if pow2 1024 \<le> m then PInf else Fin m)"
    using x e by (simp add: binary64_def Let_def m_def u_def)
  with v have "binary64 x = Fin m" by (simp split: if_splits)
  with d show ?thesis by blast
qed

lemma rnd_rel_error:
  assumes "pow2 (- 1022) \<le> x" "x < pow2 1023"
  shows "\<exists>v. rnd a x = Fin v \<and> x * (1 - 1 / 2 ^ 53) \<le> v \<and> v \<le> x * (1 + 1 / 2 ^ 53)"
proof -
  have x: "0 < x" using assms(1) pow2_pos [of "- 1022"] by simp
  have "\<exists>v. rnd a x = Fin v \<and> \<bar>v - x\<bar> \<le> x / 2 ^ 53"
  proof (cases a)
    case Binary64
    then show ?thesis using binary64_rel_error [OF assms] by simp
  next
    case Exact
    then show ?thesis using x by simp
  qed
  then obtain v where v: "rnd a x = Fin v" "\<bar>v - x\<bar> \<le> x / 2 ^ 53" by blast
  from v(2) have "x - x / 2 ^ 53 \<le> v" "v \<le> x + x / 2 ^ 53" by linarith+
  then have "x * (1 - 1 / 2 ^ 53) \<le> v \<and> v \<le> x * (1 + 1 / 2 ^ 53)"
    by (simp add: algebra_simps)
  with v(1) show ?thesis by blast
qed

text \<open>
  Claim C10. When the four fields parse to finite numbers, the investment cost and the
  projected EBITDA are positive and finite, and their ratio is between \<open>2\<^sup>-\<^sup>1\<^sup>0\<^sup>0\<^sup>0\<close> and
  \<open>2\<^sup>1\<^sup>0\<^sup>0\<^sup>0\<close> (so that nothing overflows or underflows), the payback period and the ROI
  are both set and their product is 100 up to the three roundings that produced them:
  it differs from 100 by at most \<open>100 \<cdot> 2\<^sup>-\<^sup>5\<^sup>1\<close>. The product is exactly 100, and the
  ROI exactly 100 divided by the payback period, in exact arithmetic only.
\<close>

theorem payback_roi_product:
  assumes "parseFloat a (investmentCost st) = Fin tic"
      and "parseFloat a (annualNetSales st) = Fin pans"
      and "parseFloat a (ebitdaPercentage st) = Fin ep"
      and "parseFloat a (annualRentCam st) = Fin arc"
      and "js_mul a (Fin pans) (js_div a (Fin ep) (Fin 100)) = Fin pae"
      and "0 < tic" and "0 < pae"
      and "pow2 (- 1000) \<le> tic / pae" and "tic / pae \<le> pow2 1000"
  shows "\<exists>y r. paybackPeriod (calculateMetrics a st) = Some (Fin y)
           \<and> roi (calculateMetrics a st) = Some (Fin r)
           \<and> \<bar>y * r - 100\<bar> \<le> 100 / 2 ^ 51
           \<and> (a = Exact \<longrightarrow> y * r = 100 \<and> r = 100 / y)"
proof -
  define eps :: rat where "eps = 1 / 2 ^ 53"
  have eps: "0 \<le> eps" "eps \<le> 1" by (simp_all add: eps_def)
  have cube: "(1 + eps) * ((1 + eps) * (1 + eps)) \<le> 1 + 1 / 2 ^ 51"
    "1 - 1 / 2 ^ 51 \<le> (1 - eps) * ((1 - eps) * (1 - eps))"
    by (simp_all add: eps_def)
  define rho where "rho = tic / pae"
  define sigma where "sigma = pae / tic"
  have rho: "0 < rho" and sigma: "0 < sigma" and one: "rho * sigma = 1"
    using assms(6,7) by (simp_all add: rho_def sigma_def)
  have lo: "pow2 (- 1000) \<le> rho" and hi: "rho \<le> pow2 1000"
    using assms(8,9) by (simp_all add: rho_def)
  have inv: "sigma = 1 / rho" using assms(6,7) by (simp add: rho_def sigma_def)
  have "1 / pow2 1000 \<le> 1 / rho"
    using hi rho pow2_pos [of 1000] by (intro divide_left_mono) simp_all
  then have slo: "pow2 (- 1000) \<le> sigma"
    unfolding inv using pow2_minus [of 1000] by simp
  have "1 / rho \<le> 1 / pow2 (- 1000)"
    using lo rho pow2_pos [of "- 1000"] by (intro divide_left_mono) simp_all
  then have shi: "sigma \<le> pow2 1000"
    unfolding inv using pow2_minus [of "- 1000"] by simp
  have m1: "pow2 (- 1022) \<le> pow2 (- 1000)" and m2: "pow2 1000 < pow2 1023"
    by (simp_all add: pow2_def)
  \<comment> \<open>the payback period\<close>
  from rnd_rel_error [of rho a] lo hi m1 m2
  obtain y where y: "rnd a rho = Fin y" "rho * (1 - eps) \<le> y" "y \<le> rho * (1 + eps)"
    unfolding eps_def by force
  \<comment> \<open>the quotient of the ROI\<close>
  from rnd_rel_error [of sigma a] slo shi m1 m2
  obtain q where q: "rnd a sigma = Fin q" "sigma * (1 - eps) \<le> q" "q \<le> sigma * (1 + eps)"
    unfolding eps_def by force
  \<comment> \<open>and its multiplication by 100\<close>
  have "pow2 (- 1000) * (1 - eps) \<le> sigma * (1 - eps)"
    using slo eps by (intro mult_right_mono) simp_all
  then have "pow2 (- 1000) * (1 - eps) * 100 \<le> q * 100" using q(2) by simp
  moreover have "pow2 (- 1022) \<le> pow2 (- 1000) * (1 - eps) * 100"
    by (simp add: pow2_def eps_def)
  ultimately have qlo: "pow2 (- 1022) \<le> q * 100" by simp
  have "sigma * (1 + eps) \<le> pow2 1000 * (1 + eps)"
    using shi eps by (intro mult_right_mono) simp_all
  then have "q * 100 \<le> pow2 1000 * (1 + eps) * 100" using q(3) by simp
  moreover have "pow2 1000 * (1 + eps) * 100 < pow2 1023"
    by (simp add: pow2_def eps_def)
  ultimately have qhi: "q * 100 < pow2 1023" by simp
  from rnd_rel_error [OF qlo qhi, of a]
  obtain r where r: "rnd a (q * 100) = Fin r" "q * 100 * (1 - eps) \<le> r"
      "r \<le> q * 100 * (1 + eps)"
    unfolding eps_def by force
  \<comment> \<open>what the program stores\<close>
  note f = calculateMetrics_finite [OF assms(1-4), unfolded assms(5)]
  have pp: "paybackPeriod (calculateMetrics a st) = Some (Fin y)"
    unfolding f using assms(7) y(1) by (simp add: js_gt_Fin rho_def)
  have ro: "roi (calculateMetrics a st) = Some (Fin r)"
    unfolding f using assms(6) q(1) r(1) by (simp add: sigma_def)
  \<comment> \<open>the product\<close>
  have q0: "0 \<le> q" using q(2) sigma eps
    by (meson diff_ge_0_iff_ge less_imp_le mult_nonneg_nonneg order_trans)
  have y0: "0 \<le> y" using y(2) rho eps
    by (meson diff_ge_0_iff_ge less_imp_le mult_nonneg_nonneg order_trans)
  have r0: "0 \<le> r" using r(2) q0 eps
    by (meson diff_ge_0_iff_ge mult_nonneg_nonneg order_trans zero_le_numeral)
  have "r \<le> sigma * (1 + eps) * 100 * (1 + eps)"
  proof -
    have "q * 100 * (1 + eps) \<le> sigma * (1 + eps) * 100 * (1 + eps)"
      using q(3) eps by (intro mult_right_mono) simp_all
    with r(3) show ?thesis by simp
  qed
  then have "y * r \<le> rho * (1 + eps) * (sigma * (1 + eps) * 100 * (1 + eps))"
    using y(3) r0 rho eps by (intro mult_mono) simp_all
  also have "\<dots> = 100 * (rho * sigma) * ((1 + eps) * ((1 + eps) * (1 + eps)))"
    by (simp add: algebra_simps)
  also have "\<dots> \<le> 100 * (1 + 1 / 2 ^ 51)" unfolding one using cube(1) by simp
  finally have up: "y * r \<le> 100 + 100 / 2 ^ 51" by simp
  have "sigma * (1 - eps) * 100 * (1 - eps) \<le> r"
  proof -
    have "sigma * (1 - eps) * 100 * (1 - eps) \<le> q * 100 * (1 - eps)"
      using q(2) eps by (intro mult_right_mono) simp_all
    with r(2) show ?thesis by simp
  qed
  then have "rho * (1 - eps) * (sigma * (1 - eps) * 100 * (1 - eps)) \<le> y * r"
    using y(2) y0 rho sigma eps by (intro mult_mono) simp_all
  moreover have "rho * (1 - eps) * (sigma * (1 - eps) * 100 * (1 - eps))
      = 100 * (rho * sigma) * ((1 - eps) * ((1 - eps) * (1 - eps)))"
    by (simp add: algebra_simps)
  moreover have "100 * (1 - 1 / 2 ^ 51) \<le> 100 * (rho * sigma) * ((1 - eps) * ((1 - eps) * (1 - eps)))"
    unfolding one using cube(2) by simp
  ultimately have dn: "100 - 100 / 2 ^ 51 \<le> y * r" by simp
  have bound: "\<bar>y * r - 100\<bar> \<le> 100 / 2 ^ 51" using up dn by linarith
  \<comment> \<open>without rounding\<close>
  have ex: "a = Exact \<longrightarrow> y * r = 100 \<and> r = 100 / y"
  proof
    assume x: "a = Exact"
    from y(1) q(1) have "y = rho" "q = sigma" unfolding x by simp_all
    moreover from r(1) have "r = q * 100" unfolding x by simp
    ultimately show "y * r = 100 \<and> r = 100 / y"
      using one rho sigma by (simp add: field_simps)
  qed
  from pp ro bound ex show ?thesis by blast
qed

text \<open>
  The example of the specification: the payback period is the double nearest to 8/3,
  and its exact product with the ROI 37.5 is not 100, though within the bound.
\<close>

lemma payback_roi_rounded:
  "paybackPeriod (calculateMetrics Binary64 (inputs ''500000'' ''1500000'' ''12.5'' ''120000''))
     = Some (Fin (6004799503160661 / 2251799813685248))"
  "roi (calculateMetrics Binary64 (inputs ''500000'' ''1500000'' ''12.5'' ''120000''))
     = Some (Fin (75 / 2))"
  "(6004799503160661 / 2251799813685248) * (75 / 2) \<noteq> (100 :: rat)"
  by (subst calculateMetrics_finite [where tic = 500000 and pans = 1500000 and ep = "25 / 2"
        and arc = 120000],
      simp_all add: inputs_simps parse_500000 parse_1500000 parse_12_5 parse_120000
        example_arith js_gt_Fin del: js_div.simps js_mul.simps)+

theorem payback_roi_product_witness:
  "paybackPeriod (calculateMetrics Binary64 (inputs ''500000'' ''1500000'' ''12.5'' ''120000''))
     = Some (Fin (6004799503160661 / 2251799813685248))
   \<and> roi (calculateMetrics Binary64 (inputs ''500000'' ''1500000'' ''12.5'' ''120000''))
     = Some (Fin (75 / 2))
   \<and> \<bar>(6004799503160661 / 2251799813685248) * (75 / 2) - (100 :: rat)\<bar> \<le> 100 / 2 ^ 51"
proof -
  have range: "pow2 (- 1000) \<le> 500000 / 187500" "(500000 :: rat) / 187500 \<le> pow2 1000"
    by (simp_all add: pow2_def)
  from payback_roi_product [of Binary64 "inputs ''500000'' ''1500000'' ''12.5'' ''120000''"
      500000 1500000 "25 / 2" 120000 187500, unfolded inputs_simps,
      OF parse_500000 parse_1500000 parse_12_5 parse_120000 pae_example _ _ range]
  obtain y r
    where p: "paybackPeriod
          (calculateMetrics Binary64 (inputs ''500000'' ''1500000'' ''12.5'' ''120000''))
        = Some (Fin y)"
      and q: "roi (calculateMetrics Binary64 (inputs ''500000'' ''1500000'' ''12.5'' ''120000''))
        = Some (Fin r)"
      and b: "\<bar>y * r - 100\<bar> \<le> 100 / 2 ^ 51"
    by auto
  from p have y: "y = 6004799503160661 / 2251799813685248"
    unfolding payback_roi_rounded(1) by simp
  from q have r: "r = 75 / 2"
    unfolding payback_roi_rounded(2) by simp
  from p q b [unfolded y r] show ?thesis unfolding y r by blast
qed

text \<open>
  Investment 3, net sales 100, EBITDA 7 per cent: the program stores the payback period
  0.4285714285714285 and the ROI 233.33333333333334. Their product is not 100, neither
  exactly nor as the product of doubles (99.99999999999999), and 100 divided by the
  payback period is another double than the ROI.
\<close>

lemma parse_3_7:
  "parseFloat Binary64 ''3'' = Fin 3" "parseFloat Binary64 ''7'' = Fin 7"
  by (simp_all add: parse_eval binary64_eval)

lemma arith_3_100_7:
  "js_mul Binary64 (Fin 100) (js_div Binary64 (Fin 7) (Fin 100))
     = Fin (7881299347898369 / 1125899906842624)"
  "js_div Binary64 (Fin 3) (Fin (7881299347898369 / 1125899906842624))
     = Fin (3860228252031853 / 9007199254740992)"
  "js_mul Binary64 (js_div Binary64 (Fin (7881299347898369 / 1125899906842624)) (Fin 3))
       (Fin 100)
     = Fin (8209686820727467 / 35184372088832)"
  "js_mul Binary64 (Fin (3860228252031853 / 9007199254740992))
       (Fin (8209686820727467 / 35184372088832))
     = Fin (7036874417766399 / 70368744177664)"
  "js_div Binary64 (Fin 100) (Fin (3860228252031853 / 9007199254740992))
     = Fin (2052421705181867 / 8796093022208)"
  by (simp_all add: binary64_eval)

theorem payback_roi_product_counterexample:
  "parseFloat Binary64 ''3'' = Fin 3 \<and> parseFloat Binary64 ''100'' = Fin 100
   \<and> parseFloat Binary64 ''7'' = Fin 7 \<and> parseFloat Binary64 ''1'' = Fin 1
   \<and> paybackPeriod (calculateMetrics Binary64 (inputs ''3'' ''100'' ''7'' ''1''))
       = Some (Fin (3860228252031853 / 9007199254740992))
   \<and> roi (calculateMetrics Binary64 (inputs ''3'' ''100'' ''7'' ''1''))
       = Some (Fin (8209686820727467 / 35184372088832))
   \<and> (3860228252031853 / 9007199254740992) * (8209686820727467 / 35184372088832)
       \<noteq> (100 :: rat)
   \<and> js_mul Binary64 (Fin (3860228252031853 / 9007199254740992))
         (Fin (8209686820727467 / 35184372088832)) \<noteq> Fin 100
   \<and> js_div Binary64 (Fin 100) (Fin (3860228252031853 / 9007199254740992))
       \<noteq> Fin (8209686820727467 / 35184372088832)"
proof -
  note f = calculateMetrics_finite [of Binary64 "inputs ''3'' ''100'' ''7'' ''1''" 3 100 7 1,
      unfolded inputs_simps, OF parse_3_7(1) parse_100 parse_3_7(2) parse_1,
      unfolded arith_3_100_7]
  have "paybackPeriod (calculateMetrics Binary64 (inputs ''3'' ''100'' ''7'' ''1''))
       = Some (Fin (3860228252031853 / 9007199254740992))"
    unfolding f by (simp add: js_gt_Fin)
  moreover have "roi (calculateMetrics Binary64 (inputs ''3'' ''100'' ''7'' ''1''))
       = Some (Fin (8209686820727467 / 35184372088832))"
    unfolding f by simp
  ultimately show ?thesis
    unfolding arith_3_100_7 using parse_3_7 parse_100 parse_1 by simp
qed

end
